theory Spec2Isabelle
  imports Main "HOL-Library.Word"
begin

unbundle bit_operations_syntax

section \<open>The crop filter of libavfilter (vf\_crop.c)\<close>

text \<open>
  A shallow embedding of \<^verbatim>\<open>libavfilter/vf_crop.c\<close>. A C \<^verbatim>\<open>int\<close> is a 32-bit word:
  \<open>+\<close>, \<open>-\<close> and \<open>*\<close> wrap around, \<open>sint\<close> reads the signed value, and \<open><\<close> on words
  is the unsigned comparison the casts \<^verbatim>\<open>(unsigned)\<close> of \<^verbatim>\<open>config_input\<close> ask for.
  Signed overflow and a shift by 31 or more bits are undefined in C; the model gives them
  the wrap-around value, and the theorems that depend on a signed sum say in their
  hypotheses that it is representable.
\<close>

subsection \<open>Data\<close>

type_synonym cint = "32 word"

text \<open>A byte address. \<^verbatim>\<open>NULL\<close> is 0, and \<^verbatim>\<open>p += n\<close> adds the signed value of \<open>n\<close>.\<close>

type_synonym ptr = int

definition NULL :: ptr where
  "NULL = 0"

definition ptr_add :: "ptr \<Rightarrow> cint \<Rightarrow> ptr" where
  "ptr_add p n = p + sint n"

text \<open>\<^verbatim>\<open>CropContext\<close> (lines 29-37). The arrays of four planes are functions of the index.\<close>

record CropContext =
  crop_x :: cint
  crop_y :: cint
  crop_w :: cint
  crop_h :: cint
  max_step :: "nat \<Rightarrow> cint"
  hsub :: cint
  vsub :: cint

text \<open>
  What the file reads of the framework's types, which are declared outside it: the
  dimensions of an \<^verbatim>\<open>AVFilterLink\<close>, the entry of \<^verbatim>\<open>av_pix_fmt_descriptors\<close>
  for the link's format (\<^verbatim>\<open>uint8_t\<close> fields), and a buffer reference with its plane
  pointers, line sizes and the pointer \<^verbatim>\<open>video\<close> to its video properties.
\<close>

record AVFilterLink =
  link_w :: cint
  link_h :: cint

record AVPixFmtDescriptor =
  log2_chroma_w :: "8 word"
  log2_chroma_h :: "8 word"
  flags :: "8 word"

text \<open>
  Modelled from the spec: the macro \<^verbatim>\<open>PIX_FMT_PAL\<close> is defined in libavutil/pixdesc.h,
  outside the sources; the spec has it as the format's "has palette" flag. It is one
  bit of \<open>flags\<close> (the value 2 there). The theorems use only whether
  \<open>flags AND PIX_FMT_PAL\<close> is 0.
\<close>

definition PIX_FMT_PAL :: "8 word" where
  "PIX_FMT_PAL = 2"

record AVFilterBufferRefVideoProps =
  video_w :: cint
  video_h :: cint

record AVFilterBufferRef =
  data :: "nat \<Rightarrow> ptr"
  linesize :: "nat \<Rightarrow> cint"
  video :: nat

text \<open>The store of video properties: \<^verbatim>\<open>ref->video\<close> is an address into it.\<close>

type_synonym props_store = "nat \<Rightarrow> AVFilterBufferRefVideoProps"

datatype crop_error = EINVAL

subsection \<open>C operators\<close>

text \<open>\<^verbatim>\<open>a << n\<close> and \<^verbatim>\<open>a >> n\<close> on \<^verbatim>\<open>int\<close>, the count read from an \<^verbatim>\<open>int\<close>; the right
  shift of a signed value is arithmetic.\<close>

definition shl :: "cint \<Rightarrow> cint \<Rightarrow> cint" where
  "shl a n = push_bit (unat n) a"

definition shr :: "cint \<Rightarrow> cint \<Rightarrow> cint" where
  "shr a n = signed_drop_bit (unat n) a"

subsection \<open>init (lines 71-79)\<close>

text \<open>
  \<^verbatim>\<open>sscanf\<close> is the C library's: the context it leaves is the parameter \<open>scan\<close>. With
  no parameter string (\<^verbatim>\<open>args == NULL\<close>) the context is not touched.
\<close>

definition init :: "(string \<Rightarrow> CropContext \<Rightarrow> CropContext) \<Rightarrow> string option \<Rightarrow> CropContext \<Rightarrow> CropContext" where
  "init scan args crop = (case args of None \<Rightarrow> crop | Some s \<Rightarrow> scan s crop)"

subsection \<open>config\_input (lines 81-113)\<close>

text \<open>The condition of lines 102-105 on the context as it stands after lines 91-97.\<close>

definition out_of_input_area :: "AVFilterLink \<Rightarrow> CropContext \<Rightarrow> bool" where
  "out_of_input_area link crop \<longleftrightarrow>
     sint (crop_x crop) < 0 \<or> sint (crop_y crop) < 0 \<or>
     sint (crop_w crop) \<le> 0 \<or> sint (crop_h crop) \<le> 0 \<or>
     link_w link < crop_x crop + crop_w crop \<or>
     link_h link < crop_y crop + crop_h crop"

text \<open>
  \<open>steps\<close> is what \<^verbatim>\<open>av_fill_image_max_pixstep\<close> (libavcore) writes for the format.
  The context is updated in place, also when the call fails: the result is the context
  left behind and the return value (\<open>Inl EINVAL\<close> for \<^verbatim>\<open>AVERROR(EINVAL)\<close>).
\<close>

definition config_input ::
  "AVFilterLink \<Rightarrow> AVPixFmtDescriptor \<Rightarrow> (nat \<Rightarrow> cint) \<Rightarrow> CropContext \<Rightarrow> CropContext \<times> (crop_error + unit)" where
  "config_input link pix_desc steps crop0 =
     (let crop = crop0\<lparr>max_step := steps\<rparr>;
          crop = crop\<lparr>hsub := ucast (log2_chroma_w pix_desc)\<rparr>;
          crop = crop\<lparr>vsub := ucast (log2_chroma_h pix_desc)\<rparr>;
          crop = (if crop_w crop = 0 then crop\<lparr>crop_w := link_w link - crop_x crop\<rparr> else crop);
          crop = (if crop_h crop = 0 then crop\<lparr>crop_h := link_h link - crop_y crop\<rparr> else crop);
          crop = crop\<lparr>crop_x := crop_x crop AND NOT (shl 1 (hsub crop) - 1)\<rparr>;
          crop = crop\<lparr>crop_y := crop_y crop AND NOT (shl 1 (vsub crop) - 1)\<rparr>
      in if out_of_input_area link crop then (crop, Inl EINVAL) else (crop, Inr ()))"

subsection \<open>config\_output (lines 115-123)\<close>

definition config_output :: "CropContext \<Rightarrow> AVFilterLink \<Rightarrow> AVFilterLink" where
  "config_output crop link = link\<lparr>link_w := crop_w crop, link_h := crop_h crop\<rparr>"

subsection \<open>start\_frame (lines 125-153)\<close>

text \<open>
  Modelled from the spec: \<^verbatim>\<open>avfilter_ref_buffer\<close> (libavfilter/avfilter.c) is not among
  the sources. The spec has it "create a new reference aliasing an existing frame's
  storage" (section 6), a view with "an independent offset/stride/dimension record"
  (section 9): the new reference has the plane pointers and line sizes of the original,
  and its video properties hold what the original's hold. Where those properties live
  is the parameter \<open>a\<close>: any address other than \<open>video ref\<close> gives the new reference
  a dimension record of its own; \<open>a = video ref\<close> makes the two references share one
  properties object, and the store is then unchanged.
\<close>

definition avfilter_ref_buffer ::
  "nat \<Rightarrow> props_store \<Rightarrow> AVFilterBufferRef \<Rightarrow> AVFilterBufferRef \<times> props_store" where
  "avfilter_ref_buffer a st ref = (ref\<lparr>video := a\<rparr>, st(a := st (video ref)))"

text \<open>One turn of the loop of lines 138-143, for plane \<open>i\<close>.\<close>

definition chroma_plane :: "CropContext \<Rightarrow> nat \<Rightarrow> AVFilterBufferRef \<Rightarrow> AVFilterBufferRef" where
  "chroma_plane crop i ref2 =
     (if data ref2 i \<noteq> NULL then
        (let ref2 = ref2\<lparr>data := (data ref2)
                      (i := ptr_add (data ref2 i) (shr (crop_y crop) (vsub crop) * linesize ref2 i))\<rparr>
         in ref2\<lparr>data := (data ref2)
                      (i := ptr_add (data ref2 i) (shr (crop_x crop * max_step crop i) (hsub crop)))\<rparr>)
      else ref2)"

function chroma_loop :: "CropContext \<Rightarrow> nat \<Rightarrow> AVFilterBufferRef \<Rightarrow> AVFilterBufferRef" where
  "chroma_loop crop i ref2 =
     (if i < 3 then chroma_loop crop (i + 1) (chroma_plane crop i ref2) else ref2)"
  by pat_completeness auto
termination
  by (relation "measure (\<lambda>(crop, i, ref2). 3 - i)") auto

declare chroma_loop.simps [simp del]

text \<open>
  The result is the reference \<open>ref2\<close> handed to \<^verbatim>\<open>avfilter_start_frame\<close> and the
  store of video properties at that moment. \<open>pix_desc\<close> is the descriptor of the link's
  format, \<open>a\<close> the address \<^verbatim>\<open>avfilter_ref_buffer\<close> gives the properties of \<open>ref2\<close>.
\<close>

definition start_frame ::
  "nat \<Rightarrow> AVPixFmtDescriptor \<Rightarrow> CropContext \<Rightarrow> props_store \<Rightarrow> AVFilterBufferRef
     \<Rightarrow> AVFilterBufferRef \<times> props_store" where
  "start_frame a pix_desc crop st0 picref =
     (let (ref2, st) = avfilter_ref_buffer a st0 picref;
          st = st(video picref := (st (video picref))\<lparr>video_w := crop_w crop\<rparr>);
          st = st(video picref := (st (video picref))\<lparr>video_h := crop_h crop\<rparr>);
          ref2 = ref2\<lparr>data := (data ref2)
                   (0 := ptr_add (data ref2 0) (crop_y crop * linesize ref2 0))\<rparr>;
          ref2 = ref2\<lparr>data := (data ref2)
                   (0 := ptr_add (data ref2 0) (crop_x crop * max_step crop 0))\<rparr>;
          ref2 = (if flags pix_desc AND PIX_FMT_PAL = 0 then chroma_loop crop 1 ref2 else ref2);
          ref2 = (if data ref2 3 \<noteq> NULL then
                    (let ref2 = ref2\<lparr>data := (data ref2)
                                  (3 := ptr_add (data ref2 3) (crop_y crop * linesize ref2 3))\<rparr>
                     in ref2\<lparr>data := (data ref2)
                                  (3 := ptr_add (data ref2 3) (crop_x crop * max_step crop 3))\<rparr>)
                  else ref2)
      in (ref2, st))"

subsection \<open>draw\_slice (lines 155-171)\<close>

text \<open>
  \<open>None\<close> when the function returns without a call of \<^verbatim>\<open>avfilter_draw_slice\<close>,
  otherwise the arguments \<open>(y, h, slice_dir)\<close> of that call. The comparisons are signed.
\<close>

definition draw_slice :: "CropContext \<Rightarrow> cint \<Rightarrow> cint \<Rightarrow> cint \<Rightarrow> (cint \<times> cint \<times> cint) option" where
  "draw_slice crop y0 h0 slice_dir =
     (if sint (crop_y crop + crop_h crop) \<le> sint y0 \<or> sint (y0 + h0) \<le> sint (crop_y crop)
      then None
      else
        (let (y, h) = (if sint y0 < sint (crop_y crop)
                       then (crop_y crop, h0 - (crop_y crop - y0)) else (y0, h0));
             h = (if sint (crop_y crop + crop_h crop) < sint (y + h)
                  then crop_y crop + crop_h crop - y else h)
         in Some (y - crop_y crop, h, slice_dir)))"

subsection \<open>Vocabulary of the properties\<close>

text \<open>The values of a C \<^verbatim>\<open>int\<close>: a signed sum outside them is undefined in C.\<close>

definition representable :: "int \<Rightarrow> bool" where
  "representable k \<longleftrightarrow> - (2 ^ 31) \<le> k \<and> k < 2 ^ 31"

text \<open>
  The spec's words for a rejected rectangle (section 8, validation totality), over the
  integers: \<open>x<0 or y<0 or w<=0 or h<=0 or x+w>input_w or y+h>input_h\<close>.
\<close>

definition invalid_geometry :: "int \<Rightarrow> int \<Rightarrow> int \<Rightarrow> int \<Rightarrow> int \<Rightarrow> int \<Rightarrow> bool" where
  "invalid_geometry x y w h input_w input_h \<longleftrightarrow>
     x < 0 \<or> y < 0 \<or> w \<le> 0 \<or> h \<le> 0 \<or> input_w < x + w \<or> input_h < y + h"

text \<open>
  A validated window: a context that passed the check of lines 102-105 against a link
  whose dimensions are not negative.
\<close>

definition validated :: "AVFilterLink \<Rightarrow> CropContext \<Rightarrow> bool" where
  "validated link crop \<longleftrightarrow>
     0 \<le> sint (link_w link) \<and> 0 \<le> sint (link_h link) \<and> \<not> out_of_input_area link crop"

subsection \<open>Concrete inputs\<close>

text \<open>
  The inputs the theorems are run on: a 320x240 link, the descriptor entries of a 4:2:0
  planar format and of a palette format, a context as \<^verbatim>\<open>init\<close> leaves it for the
  parameter string \<open>x:y:w:h\<close>, a resolved window on the 4:2:0 format with one byte
  per sample, and a 4:2:0 frame (three planes, line sizes 320, 160, 160) whose video
  properties say 320x240.
\<close>

definition link_320x240 :: AVFilterLink where
  "link_320x240 = \<lparr>link_w = 320, link_h = 240\<rparr>"

definition yuv420p :: AVPixFmtDescriptor where
  "yuv420p = \<lparr>log2_chroma_w = 1, log2_chroma_h = 1, flags = 0\<rparr>"

definition pal8 :: AVPixFmtDescriptor where
  "pal8 = \<lparr>log2_chroma_w = 0, log2_chroma_h = 0, flags = PIX_FMT_PAL\<rparr>"

definition requested :: "cint \<Rightarrow> cint \<Rightarrow> cint \<Rightarrow> cint \<Rightarrow> CropContext" where
  "requested x y w h =
     \<lparr>crop_x = x, crop_y = y, crop_w = w, crop_h = h, max_step = (\<lambda>i. 0), hsub = 0, vsub = 0\<rparr>"

definition window_420 :: "cint \<Rightarrow> cint \<Rightarrow> cint \<Rightarrow> cint \<Rightarrow> CropContext" where
  "window_420 x y w h =
     \<lparr>crop_x = x, crop_y = y, crop_w = w, crop_h = h, max_step = (\<lambda>i. 1), hsub = 1, vsub = 1\<rparr>"

definition frame_420 :: AVFilterBufferRef where
  "frame_420 =
     \<lparr>data = (\<lambda>i. if i < 3 then 1000000 * (int i + 1) else NULL),
      linesize = (\<lambda>i. if i = 0 then 320 else if i < 3 then 160 else 0),
      video = 0\<rparr>"

definition props_320x240 :: props_store where
  "props_320x240 = (\<lambda>p. \<lparr>video_w = 320, video_h = 240\<rparr>)"

lemmas examples = link_320x240_def yuv420p_def pal8_def requested_def window_420_def
  frame_420_def props_320x240_def

section \<open>Signed and unsigned readings of a C int\<close>

lemma sint_bounds: "- 2147483648 \<le> sint (a :: cint)" "sint (a :: cint) < 2147483648"
  using sint_ge [of a] sint_lt [of a] by simp_all

lemma sint_add_repr:
  "representable (sint a + sint b) \<Longrightarrow> sint (a + b :: cint) = sint a + sint b"
  by (simp add: representable_def sint_word_ariths signed_take_bit_int_eq_self)

lemma sint_sub_repr:
  "representable (sint a - sint b) \<Longrightarrow> sint (a - b :: cint) = sint a - sint b"
  by (simp add: representable_def sint_word_ariths signed_take_bit_int_eq_self)

lemma sint_mult_repr:
  "representable (sint a * sint b) \<Longrightarrow> sint (a * b :: cint) = sint a * sint b"
  by (simp add: representable_def sint_word_ariths signed_take_bit_int_eq_self)

lemma sint_shr: "sint (shr a n) = sint a div 2 ^ unat n"
  by (simp add: shr_def sint_signed_drop_bit_eq drop_bit_eq_div)

lemma uint_eq_sint: "0 \<le> sint (a :: cint) \<Longrightarrow> uint a = sint a"
  using sint_lt [of a] by (simp add: uint_sint take_bit_int_eq_self)

lemma uint_add_nonneg:
  assumes "0 \<le> sint (a :: cint)" "0 \<le> sint (b :: cint)"
  shows "uint (a + b) = uint a + uint b"
proof -
  have "uint a + uint b < 2 ^ LENGTH(32)"
    using assms sint_bounds [of a] sint_bounds [of b] by (simp add: uint_eq_sint)
  then show ?thesis by (simp only: uint_add_lem)
qed

section \<open>config\_input\<close>

text \<open>The context \<^verbatim>\<open>config_input\<close> leaves, field by field, and its return value.\<close>

lemma config_input_fst:
  "fst (config_input link pix_desc steps crop) =
     crop\<lparr>max_step := steps,
          hsub := ucast (log2_chroma_w pix_desc),
          vsub := ucast (log2_chroma_h pix_desc),
          crop_w := (if crop_w crop = 0 then link_w link - crop_x crop else crop_w crop),
          crop_h := (if crop_h crop = 0 then link_h link - crop_y crop else crop_h crop),
          crop_x := crop_x crop AND NOT (shl 1 (ucast (log2_chroma_w pix_desc)) - 1),
          crop_y := crop_y crop AND NOT (shl 1 (ucast (log2_chroma_h pix_desc)) - 1)\<rparr>"
  by (simp add: config_input_def Let_def)

lemma config_input_snd:
  "snd (config_input link pix_desc steps crop) =
     (if out_of_input_area link (fst (config_input link pix_desc steps crop))
      then Inl EINVAL else Inr ())"
  by (simp add: config_input_def Let_def)

subsection \<open>Validation\<close>

text \<open>
  Once \<open>x\<close> and \<open>w\<close> are known not to be negative, the sum of line 104 cannot wrap:
  the unsigned comparison is the comparison of the integer \<open>x + w\<close> with the unsigned
  reading of \<^verbatim>\<open>link->w\<close>.
\<close>

lemma out_of_input_area_uint:
  "out_of_input_area link c \<longleftrightarrow>
     invalid_geometry (sint (crop_x c)) (sint (crop_y c)) (sint (crop_w c)) (sint (crop_h c))
       (uint (link_w link)) (uint (link_h link))"
proof (cases "0 \<le> sint (crop_x c) \<and> 0 \<le> sint (crop_y c) \<and> 0 < sint (crop_w c) \<and> 0 < sint (crop_h c)")
  case True
  then have "uint (crop_x c + crop_w c) = sint (crop_x c) + sint (crop_w c)"
    "uint (crop_y c + crop_h c) = sint (crop_y c) + sint (crop_h c)"
    by (simp_all add: uint_add_nonneg uint_eq_sint)
  with True show ?thesis
    by (simp add: out_of_input_area_def invalid_geometry_def word_less_alt)
next
  case False
  then show ?thesis
    by (auto simp: out_of_input_area_def invalid_geometry_def)
qed

lemma out_of_input_area_sint:
  assumes "0 \<le> sint (link_w link)" "0 \<le> sint (link_h link)"
  shows "out_of_input_area link c \<longleftrightarrow>
     invalid_geometry (sint (crop_x c)) (sint (crop_y c)) (sint (crop_w c)) (sint (crop_h c))
       (sint (link_w link)) (sint (link_h link))"
  using assms by (simp add: out_of_input_area_uint uint_eq_sint)

text \<open>
  A context that \<^verbatim>\<open>config_input\<close> accepted for a link of non-negative dimensions is
  a validated window, and a validated window has the invariants of the spec's
  CropWindow over the integers.
\<close>

lemma config_input_validated:
  assumes "0 \<le> sint (link_w link)" "0 \<le> sint (link_h link)"
    and "snd (config_input link pix_desc steps crop) = Inr ()"
  shows "validated link (fst (config_input link pix_desc steps crop))"
  using assms by (simp add: validated_def config_input_snd split: if_splits)

lemma validated_int:
  assumes "validated link crop"
  shows "0 \<le> sint (crop_x crop)" "0 \<le> sint (crop_y crop)"
    "0 < sint (crop_w crop)" "0 < sint (crop_h crop)"
    "sint (crop_x crop) + sint (crop_w crop) \<le> sint (link_w link)"
    "sint (crop_y crop) + sint (crop_h crop) \<le> sint (link_h link)"
  using assms out_of_input_area_sint [of link crop]
  by (auto simp: validated_def invalid_geometry_def)

lemma validated_window_sum:
  assumes "validated link crop"
  shows "representable (sint (crop_y crop) + sint (crop_h crop))"
  using validated_int [OF assms] sint_bounds [of "link_h link"]
  by (simp add: representable_def)

text \<open>
  C1. Geometry resolution fails with \<open>EINVAL\<close> (the spec's InvalidCropGeometry) exactly
  when the values left after defaulting and alignment satisfy
  \<open>x<0 or y<0 or w<=0 or h<=0 or x+w>input_w or y+h>input_h\<close>, and succeeds otherwise, for
  every context, link and format. The sums \<open>x+w\<close> and \<open>y+h\<close> are sums of integers
  (nothing wraps, so a negative \<open>x\<close> or \<open>y\<close> cannot slip through), and they are
  compared with the unsigned reading of the link's dimensions, as the casts of lines
  104-105 have it. For a link whose dimensions are not negative that reading is the
  signed one: this is the second half.
\<close>

theorem config_input_fails_iff:
  "snd (config_input link pix_desc steps crop) =
     (if invalid_geometry
           (sint (crop_x (fst (config_input link pix_desc steps crop))))
           (sint (crop_y (fst (config_input link pix_desc steps crop))))
           (sint (crop_w (fst (config_input link pix_desc steps crop))))
           (sint (crop_h (fst (config_input link pix_desc steps crop))))
           (uint (link_w link)) (uint (link_h link))
      then Inl EINVAL else Inr ())
   \<and> (0 \<le> sint (link_w link) \<and> 0 \<le> sint (link_h link) \<longrightarrow>
      snd (config_input link pix_desc steps crop) =
        (if invalid_geometry
              (sint (crop_x (fst (config_input link pix_desc steps crop))))
              (sint (crop_y (fst (config_input link pix_desc steps crop))))
              (sint (crop_w (fst (config_input link pix_desc steps crop))))
              (sint (crop_h (fst (config_input link pix_desc steps crop))))
              (sint (link_w link)) (sint (link_h link))
         then Inl EINVAL else Inr ()))"
  by (simp add: config_input_snd out_of_input_area_uint uint_eq_sint)

text \<open>
  At the 320x240 link: the request 4:6:100:80 is accepted, the request 300:6:100:80
  (300 + 100 > 320) is not.
\<close>

theorem config_input_fails_iff_witness:
  "0 \<le> sint (link_w link_320x240) \<and> 0 \<le> sint (link_h link_320x240) \<and>
   snd (config_input link_320x240 yuv420p (\<lambda>i. 1) (requested 4 6 100 80)) = Inr () \<and>
   snd (config_input link_320x240 yuv420p (\<lambda>i. 1) (requested 300 6 100 80)) = Inl EINVAL"
  using config_input_fails_iff [of link_320x240 yuv420p "\<lambda>i. 1" "requested 4 6 100 80"]
    config_input_fails_iff [of link_320x240 yuv420p "\<lambda>i. 1" "requested 300 6 100 80"]
  by (simp add: config_input_fst invalid_geometry_def shl_def examples)

text \<open>
  The unsigned reading matters only for a link with a negative dimension, which the
  framework does not produce: there \<^verbatim>\<open>link->w\<close> reads as a number above every sum, and
  a 1x1 window is accepted on a link that says -1 x -1.
\<close>

lemma negative_link_accepts:
  "snd (config_input \<lparr>link_w = - 1, link_h = - 1\<rparr> yuv420p (\<lambda>i. 1) (requested 0 0 1 1)) = Inr ()"
  by (simp add: config_input_snd config_input_fst out_of_input_area_def shl_def examples)

subsection \<open>Alignment\<close>

text \<open>
  \<^verbatim>\<open>x &= ~((1 << n) - 1)\<close> clears the low \<open>n\<close> bits; read as a signed integer that is
  rounding down to a multiple of \<open>2 ^ n\<close>, for every shift count below the width.
\<close>

lemma shl_1_minus_1: "shl 1 n - 1 = (mask (unat n) :: cint)"
  by (simp add: shl_def mask_eq_exp_minus_1)

lemma and_not_mask_int: "(k :: int) AND NOT (mask n) = (k div 2 ^ n) * 2 ^ n"
proof -
  have "k AND NOT (mask n) = push_bit n (drop_bit n k)"
    by (rule bit_eqI) (auto simp: bit_simps)
  then show ?thesis
    by (simp add: push_bit_eq_mult drop_bit_eq_div)
qed

lemma sint_and_not_mask:
  assumes "n < 32"
  shows "sint ((a :: cint) AND NOT (mask n)) = sint a AND NOT (mask n)"
  using assms by (intro bit_eqI) (auto simp: bit_simps min_def)

lemma sint_align:
  assumes "n < 32" and "unat s = n"
  shows "sint ((a :: cint) AND NOT (shl 1 s - 1)) = (sint a div 2 ^ n) * 2 ^ n"
  using assms(2) by (simp add: shl_1_minus_1 sint_and_not_mask [OF assms(1)] and_not_mask_int)

lemma unat_ucast_8_32: "unat (ucast (b :: 8 word) :: cint) = unat b"
  by transfer (simp add: take_bit_nat_eq_self take_bit_int_eq_self nat_take_bit_eq)

text \<open>
  C6. The resolved \<open>x\<close> is a multiple of \<open>2 ^ subsampling_w\<close> and the resolved \<open>y\<close> of
  \<open>2 ^ subsampling_h\<close>, each the requested offset rounded down to the nearest such
  multiple; \<open>hsub\<close> and \<open>vsub\<close> are the descriptor's shifts. This holds for every
  resolved context, accepted or not, when the shift counts are below 32 (the formats
  of \<^verbatim>\<open>query_formats\<close> have 0, 1 or 2; C leaves larger shifts undefined).
\<close>

theorem offsets_aligned:
  assumes "unat (log2_chroma_w pix_desc) < 32" and "unat (log2_chroma_h pix_desc) < 32"
  shows "unat (hsub (fst (config_input link pix_desc steps crop))) = unat (log2_chroma_w pix_desc) \<and>
     unat (vsub (fst (config_input link pix_desc steps crop))) = unat (log2_chroma_h pix_desc) \<and>
     sint (crop_x (fst (config_input link pix_desc steps crop))) =
       (sint (crop_x crop) div 2 ^ unat (log2_chroma_w pix_desc)) * 2 ^ unat (log2_chroma_w pix_desc) \<and>
     sint (crop_y (fst (config_input link pix_desc steps crop))) =
       (sint (crop_y crop) div 2 ^ unat (log2_chroma_h pix_desc)) * 2 ^ unat (log2_chroma_h pix_desc) \<and>
     sint (crop_x (fst (config_input link pix_desc steps crop))) mod 2 ^ unat (log2_chroma_w pix_desc) = 0 \<and>
     sint (crop_y (fst (config_input link pix_desc steps crop))) mod 2 ^ unat (log2_chroma_h pix_desc) = 0"
proof -
  have x: "sint (crop_x (fst (config_input link pix_desc steps crop))) =
       (sint (crop_x crop) div 2 ^ unat (log2_chroma_w pix_desc)) * 2 ^ unat (log2_chroma_w pix_desc)"
    by (simp add: config_input_fst sint_align [OF assms(1) unat_ucast_8_32])
  have y: "sint (crop_y (fst (config_input link pix_desc steps crop))) =
       (sint (crop_y crop) div 2 ^ unat (log2_chroma_h pix_desc)) * 2 ^ unat (log2_chroma_h pix_desc)"
    by (simp add: config_input_fst sint_align [OF assms(2) unat_ucast_8_32])
  show ?thesis
    unfolding x y by (simp add: config_input_fst unat_ucast_8_32)
qed

text \<open>At the request 5:7:100:80 on the 4:2:0 format the offsets become (4, 6).\<close>

theorem offsets_aligned_witness:
  "unat (log2_chroma_w yuv420p) < 32 \<and> unat (log2_chroma_h yuv420p) < 32 \<and>
   sint (crop_x (fst (config_input link_320x240 yuv420p (\<lambda>i. 1) (requested 5 7 100 80)))) = 4 \<and>
   sint (crop_y (fst (config_input link_320x240 yuv420p (\<lambda>i. 1) (requested 5 7 100 80)))) = 6"
  using offsets_aligned [of yuv420p link_320x240 "\<lambda>i. 1" "requested 5 7 100 80"]
  by (simp add: examples)

subsection \<open>Defaulting\<close>

text \<open>
  With \<^verbatim>\<open>link->w\<close> not negative, a difference \<^verbatim>\<open>link->w - x\<close> that comes out
  positive did not wrap.
\<close>

lemma sint_sub_positive:
  assumes lw: "0 \<le> sint (a :: cint)" and pos: "0 < sint (a - b)"
  shows "sint (a - b) = sint a - sint (b :: cint)"
proof (cases "sint a - sint b < 2 ^ 31")
  case True
  then have "representable (sint a - sint b)"
    using lw sint_bounds [of a] sint_bounds [of b] by (simp add: representable_def)
  then show ?thesis by (rule sint_sub_repr)
next
  case False
  then have "signed_take_bit 31 (sint a - sint b) \<le> sint a - sint b - 2 ^ Suc 31"
    by (intro signed_take_bit_int_less_eq) simp
  then have "sint (a - b) \<le> sint a - sint b - 4294967296"
    by (simp add: sint_word_ariths)
  with pos sint_bounds [of a] sint_bounds [of b] show ?thesis by simp
qed

text \<open>
  C5, with the offset corrected. When resolution succeeds and the requested width is 0,
  the resolved width is \<^verbatim>\<open>link->w\<close> minus the \<^emph>\<open>requested\<close> x (line 92 runs before the
  alignment of line 96): as a C difference, and as a difference of integers when the
  link's width is not negative. It is \<^verbatim>\<open>link->w\<close> minus the resolved x exactly when
  the alignment left x as it was. The same holds for the height and y.
\<close>

theorem default_extent_from_requested_offset:
  assumes "snd (config_input link pix_desc steps crop) = Inr ()"
  shows "(crop_w crop = 0 \<longrightarrow>
            crop_w (fst (config_input link pix_desc steps crop)) = link_w link - crop_x crop) \<and>
         (crop_h crop = 0 \<longrightarrow>
            crop_h (fst (config_input link pix_desc steps crop)) = link_h link - crop_y crop) \<and>
         (crop_w crop = 0 \<and> 0 \<le> sint (link_w link) \<longrightarrow>
            sint (crop_w (fst (config_input link pix_desc steps crop)))
              = sint (link_w link) - sint (crop_x crop)) \<and>
         (crop_h crop = 0 \<and> 0 \<le> sint (link_h link) \<longrightarrow>
            sint (crop_h (fst (config_input link pix_desc steps crop)))
              = sint (link_h link) - sint (crop_y crop)) \<and>
         (crop_w crop = 0 \<longrightarrow>
            (crop_w (fst (config_input link pix_desc steps crop))
               = link_w link - crop_x (fst (config_input link pix_desc steps crop))
             \<longleftrightarrow> crop_x (fst (config_input link pix_desc steps crop)) = crop_x crop)) \<and>
         (crop_h crop = 0 \<longrightarrow>
            (crop_h (fst (config_input link pix_desc steps crop))
               = link_h link - crop_y (fst (config_input link pix_desc steps crop))
             \<longleftrightarrow> crop_y (fst (config_input link pix_desc steps crop)) = crop_y crop))"
proof -
  from assms have ok: "\<not> out_of_input_area link (fst (config_input link pix_desc steps crop))"
    by (simp add: config_input_snd split: if_splits)
  then have pos: "0 < sint (crop_w (fst (config_input link pix_desc steps crop)))"
    "0 < sint (crop_h (fst (config_input link pix_desc steps crop)))"
    by (simp_all add: out_of_input_area_def)
  have w: "sint (link_w link - crop_x crop) = sint (link_w link) - sint (crop_x crop)"
    if "crop_w crop = 0" "0 \<le> sint (link_w link)"
    using pos(1) that by (intro sint_sub_positive) (simp_all add: config_input_fst)
  have h: "sint (link_h link - crop_y crop) = sint (link_h link) - sint (crop_y crop)"
    if "crop_h crop = 0" "0 \<le> sint (link_h link)"
    using pos(2) that by (intro sint_sub_positive) (simp_all add: config_input_fst)
  show ?thesis
    using w h by (auto simp: config_input_fst)
qed

text \<open>
  At the request 5:7:0:0 on the 320x240 link with the 4:2:0 format: accepted, and the
  window is 315 wide and 233 high (320 - 5 and 240 - 7).
\<close>

theorem default_extent_from_requested_offset_witness:
  "snd (config_input link_320x240 yuv420p (\<lambda>i. 1) (requested 5 7 0 0)) = Inr () \<and>
   crop_w (requested 5 7 0 0) = 0 \<and> crop_h (requested 5 7 0 0) = 0 \<and>
   0 \<le> sint (link_w link_320x240) \<and> 0 \<le> sint (link_h link_320x240) \<and>
   sint (crop_w (fst (config_input link_320x240 yuv420p (\<lambda>i. 1) (requested 5 7 0 0)))) = 315 \<and>
   sint (crop_h (fst (config_input link_320x240 yuv420p (\<lambda>i. 1) (requested 5 7 0 0)))) = 233"
proof -
  have ok: "snd (config_input link_320x240 yuv420p (\<lambda>i. 1) (requested 5 7 0 0)) = Inr ()"
    by (simp add: config_input_snd config_input_fst out_of_input_area_def shl_def examples)
  from default_extent_from_requested_offset [OF ok] ok show ?thesis
    by (simp add: examples)
qed

text \<open>
  C5 as the claim has it fails there: the resolved x is 4, so the extent left of the
  resolved offset is 316, and the window is 315 wide.
\<close>

theorem default_extent_not_from_resolved_offset:
  "snd (config_input link_320x240 yuv420p (\<lambda>i. 1) (requested 5 7 0 0)) = Inr () \<and>
   crop_w (requested 5 7 0 0) = 0 \<and>
   crop_x (fst (config_input link_320x240 yuv420p (\<lambda>i. 1) (requested 5 7 0 0))) = 4 \<and>
   crop_w (fst (config_input link_320x240 yuv420p (\<lambda>i. 1) (requested 5 7 0 0))) = 315 \<and>
   crop_w (fst (config_input link_320x240 yuv420p (\<lambda>i. 1) (requested 5 7 0 0)))
     \<noteq> link_w link_320x240
         - crop_x (fst (config_input link_320x240 yuv420p (\<lambda>i. 1) (requested 5 7 0 0)))"
  by (simp add: config_input_snd config_input_fst out_of_input_area_def shl_def examples)

subsection \<open>No parameter string\<close>

text \<open>
  C10. Without a parameter string \<^verbatim>\<open>init\<close> leaves the context as it is, so the four
  requested values stay at the zeros the context starts with (the framework hands
  \<^verbatim>\<open>init\<close> a zeroed context; that allocation is outside the file and is the
  hypothesis here); for every link with positive width and height \<^verbatim>\<open>config_input\<close>
  then succeeds with the window \<open>x = 0\<close>, \<open>y = 0\<close>, \<open>w = link_w\<close>, \<open>h = link_h\<close>,
  whatever the format.
\<close>

theorem no_args_full_frame:
  assumes "crop_x crop = 0" "crop_y crop = 0" "crop_w crop = 0" "crop_h crop = 0"
    and "0 < sint (link_w link)" "0 < sint (link_h link)"
  shows "init scan None crop = crop \<and>
     snd (config_input link pix_desc steps (init scan None crop)) = Inr () \<and>
     crop_x (fst (config_input link pix_desc steps (init scan None crop))) = 0 \<and>
     crop_y (fst (config_input link pix_desc steps (init scan None crop))) = 0 \<and>
     crop_w (fst (config_input link pix_desc steps (init scan None crop))) = link_w link \<and>
     crop_h (fst (config_input link pix_desc steps (init scan None crop))) = link_h link"
  using assms
  by (simp add: init_def config_input_snd config_input_fst out_of_input_area_def)

text \<open>At the 320x240 link the window is the full frame.\<close>

theorem no_args_full_frame_witness:
  "crop_x (requested 0 0 0 0) = 0 \<and> crop_y (requested 0 0 0 0) = 0 \<and>
   crop_w (requested 0 0 0 0) = 0 \<and> crop_h (requested 0 0 0 0) = 0 \<and>
   0 < sint (link_w link_320x240) \<and> 0 < sint (link_h link_320x240) \<and>
   config_input link_320x240 yuv420p (\<lambda>i. 1) (init (\<lambda>s c. c) None (requested 0 0 0 0)) =
     (\<lparr>crop_x = 0, crop_y = 0, crop_w = 320, crop_h = 240,
       max_step = (\<lambda>i. 1), hsub = 1, vsub = 1\<rparr>, Inr ())"
  using no_args_full_frame [of "requested 0 0 0 0" link_320x240 "\<lambda>s c. c" yuv420p "\<lambda>i. 1"]
  by (simp add: prod_eq_iff config_input_fst init_def examples)

section \<open>start\_frame\<close>

text \<open>The loop of lines 138-143 runs for the planes 1 and 2.\<close>

lemma chroma_loop_unroll:
  "chroma_loop crop (Suc 0) ref2 = chroma_plane crop 2 (chroma_plane crop (Suc 0) ref2)"
  by (simp add: chroma_loop.simps eval_nat_numeral)

lemma chroma_plane_data:
  "data (chroma_plane crop i ref2) j =
     (if j = i \<and> data ref2 i \<noteq> NULL
      then ptr_add (ptr_add (data ref2 i) (shr (crop_y crop) (vsub crop) * linesize ref2 i))
             (shr (crop_x crop * max_step crop i) (hsub crop))
      else data ref2 j)"
  by (simp add: chroma_plane_def Let_def)

lemma chroma_plane_rest:
  "linesize (chroma_plane crop i ref2) = linesize ref2"
  "video (chroma_plane crop i ref2) = video ref2"
  by (simp_all add: chroma_plane_def Let_def)

lemma chroma_loop_data:
  "data (chroma_loop crop (Suc 0) ref2) j =
     (if (j = 1 \<or> j = 2) \<and> data ref2 j \<noteq> NULL
      then ptr_add (ptr_add (data ref2 j) (shr (crop_y crop) (vsub crop) * linesize ref2 j))
             (shr (crop_x crop * max_step crop j) (hsub crop))
      else data ref2 j)"
  by (auto simp: chroma_loop_unroll chroma_plane_data chroma_plane_rest)

lemma chroma_loop_rest:
  "linesize (chroma_loop crop (Suc 0) ref2) = linesize ref2"
  "video (chroma_loop crop (Suc 0) ref2) = video ref2"
  by (simp_all add: chroma_loop_unroll chroma_plane_rest)

text \<open>The forwarded reference, plane by plane, and the store of video properties.\<close>

lemma start_frame_data:
  "data (fst (start_frame a pix_desc crop st picref)) j =
     (if j = 0 then
        ptr_add (ptr_add (data picref 0) (crop_y crop * linesize picref 0))
          (crop_x crop * max_step crop 0)
      else if (j = 1 \<or> j = 2) \<and> flags pix_desc AND PIX_FMT_PAL = 0 \<and> data picref j \<noteq> NULL then
        ptr_add (ptr_add (data picref j) (shr (crop_y crop) (vsub crop) * linesize picref j))
          (shr (crop_x crop * max_step crop j) (hsub crop))
      else if j = 3 \<and> data picref 3 \<noteq> NULL then
        ptr_add (ptr_add (data picref 3) (crop_y crop * linesize picref 3))
          (crop_x crop * max_step crop 3)
      else data picref j)"
  by (auto simp: start_frame_def avfilter_ref_buffer_def Let_def chroma_loop_data chroma_loop_rest)

lemma start_frame_rest:
  "linesize (fst (start_frame a pix_desc crop st picref)) = linesize picref"
  "video (fst (start_frame a pix_desc crop st picref)) = a"
  by (simp_all add: start_frame_def avfilter_ref_buffer_def Let_def chroma_loop_rest)

lemma start_frame_store:
  "snd (start_frame a pix_desc crop st picref) =
     (st(a := st (video picref)))
       (video picref := (st (video picref))\<lparr>video_w := crop_w crop, video_h := crop_h crop\<rparr>)"
  by (simp add: start_frame_def avfilter_ref_buffer_def Let_def)

subsection \<open>Plane offsets\<close>

text \<open>
  C2. The forwarded reference has plane 0 advanced by \<^verbatim>\<open>y * linesize[0]\<close> plus
  \<^verbatim>\<open>x * max_step[0]\<close>; each chroma plane \<open>i\<close> of 1 and 2 that is not \<^verbatim>\<open>NULL\<close>, when the
  format has no palette, by \<^verbatim>\<open>(y >> vsub) * linesize[i]\<close> plus
  \<^verbatim>\<open>(x * max_step[i]) >> hsub\<close> (the shift applies to the second product only: there
  are two additions, lines 140 and 141, and the spec's 482 is computed so); and a plane
  3 that is not \<^verbatim>\<open>NULL\<close> by \<^verbatim>\<open>y * linesize[3]\<close> plus \<^verbatim>\<open>x * max_step[3]\<close>. The first three
  parts state this for the C products, for every window and frame; the last three for
  the products of the integers, when those are representable.
\<close>

theorem start_frame_plane_offsets:
  "data (fst (start_frame a pix_desc crop st picref)) 0 =
     data picref 0 + (sint (crop_y crop * linesize picref 0) + sint (crop_x crop * max_step crop 0))
   \<and> (\<forall>i\<in>{1, 2}. flags pix_desc AND PIX_FMT_PAL = 0 \<and> data picref i \<noteq> NULL \<longrightarrow>
        data (fst (start_frame a pix_desc crop st picref)) i =
          data picref i + (sint (shr (crop_y crop) (vsub crop) * linesize picref i)
                           + sint (shr (crop_x crop * max_step crop i) (hsub crop))))
   \<and> (data picref 3 \<noteq> NULL \<longrightarrow>
        data (fst (start_frame a pix_desc crop st picref)) 3 =
          data picref 3 + (sint (crop_y crop * linesize picref 3) + sint (crop_x crop * max_step crop 3)))
   \<and> (representable (sint (crop_y crop) * sint (linesize picref 0)) \<and>
      representable (sint (crop_x crop) * sint (max_step crop 0)) \<longrightarrow>
        data (fst (start_frame a pix_desc crop st picref)) 0 =
          data picref 0 + (sint (crop_y crop) * sint (linesize picref 0)
                           + sint (crop_x crop) * sint (max_step crop 0)))
   \<and> (\<forall>i\<in>{1, 2}. flags pix_desc AND PIX_FMT_PAL = 0 \<and> data picref i \<noteq> NULL \<and>
        representable (sint (crop_y crop) div 2 ^ unat (vsub crop) * sint (linesize picref i)) \<and>
        representable (sint (crop_x crop) * sint (max_step crop i)) \<longrightarrow>
        data (fst (start_frame a pix_desc crop st picref)) i =
          data picref i + (sint (crop_y crop) div 2 ^ unat (vsub crop) * sint (linesize picref i)
                           + sint (crop_x crop) * sint (max_step crop i) div 2 ^ unat (hsub crop)))
   \<and> (data picref 3 \<noteq> NULL \<and>
      representable (sint (crop_y crop) * sint (linesize picref 3)) \<and>
      representable (sint (crop_x crop) * sint (max_step crop 3)) \<longrightarrow>
        data (fst (start_frame a pix_desc crop st picref)) 3 =
          data picref 3 + (sint (crop_y crop) * sint (linesize picref 3)
                           + sint (crop_x crop) * sint (max_step crop 3)))"
proof -
  have chroma: "sint (shr (crop_y crop) (vsub crop) * linesize picref i)
                  = sint (crop_y crop) div 2 ^ unat (vsub crop) * sint (linesize picref i)"
    if "representable (sint (crop_y crop) div 2 ^ unat (vsub crop) * sint (linesize picref i))" for i
    using sint_mult_repr [of "shr (crop_y crop) (vsub crop)" "linesize picref i"] that
    by (simp add: sint_shr)
  show ?thesis
    by (auto simp: start_frame_data ptr_add_def sint_mult_repr sint_shr chroma)
qed

text \<open>
  The spec's example: the window \<open>x = 4\<close>, \<open>y = 6\<close> on the 4:2:0 frame moves plane 0 by
  \<open>6 * 320 + 4 * 1 = 1924\<close> and the chroma planes by \<open>(6 >> 1) * 160 + ((4 * 1) >> 1) = 482\<close>.
\<close>

theorem start_frame_plane_offsets_witness:
  "flags yuv420p AND PIX_FMT_PAL = 0 \<and> data frame_420 1 \<noteq> NULL \<and> data frame_420 2 \<noteq> NULL \<and>
   representable (sint (crop_y (window_420 4 6 100 80)) * sint (linesize frame_420 0)) \<and>
   representable (sint (crop_x (window_420 4 6 100 80)) * sint (max_step (window_420 4 6 100 80) 0)) \<and>
   data (fst (start_frame 1 yuv420p (window_420 4 6 100 80) props_320x240 frame_420)) 0
     = data frame_420 0 + 1924 \<and>
   data (fst (start_frame 1 yuv420p (window_420 4 6 100 80) props_320x240 frame_420)) 1
     = data frame_420 1 + 482 \<and>
   data (fst (start_frame 1 yuv420p (window_420 4 6 100 80) props_320x240 frame_420)) 2
     = data frame_420 2 + 482"
  using start_frame_plane_offsets [of 1 yuv420p "window_420 4 6 100 80" props_320x240 frame_420]
  by (simp add: representable_def NULL_def PIX_FMT_PAL_def examples)

subsection \<open>Palette formats\<close>

text \<open>
  C7. For a format with the palette flag the forwarded reference has the pointers of
  planes 1 and 2 of the incoming one, whatever the window.
\<close>

theorem palette_planes_untouched:
  assumes "flags pix_desc AND PIX_FMT_PAL \<noteq> 0"
  shows "data (fst (start_frame a pix_desc crop st picref)) 1 = data picref 1 \<and>
         data (fst (start_frame a pix_desc crop st picref)) 2 = data picref 2"
  using assms by (simp add: start_frame_data)

text \<open>On the palette format the palette pointer of the frame stays at 2000000.\<close>

theorem palette_planes_untouched_witness:
  "flags pal8 AND PIX_FMT_PAL \<noteq> 0 \<and>
   data (fst (start_frame 1 pal8 (window_420 4 6 100 80) props_320x240 frame_420)) 1 = 2000000 \<and>
   data (fst (start_frame 1 pal8 (window_420 4 6 100 80) props_320x240 frame_420)) 2 = 3000000"
  using palette_planes_untouched [of pal8 1 "window_420 4 6 100 80" props_320x240 frame_420]
  by (simp add: PIX_FMT_PAL_def examples)

subsection \<open>The identity window\<close>

text \<open>
  C8. With \<open>x = 0\<close>, \<open>y = 0\<close> and \<open>w\<close>, \<open>h\<close> the dimensions the frame has, the forwarded
  reference has the plane pointers and line sizes of the incoming one, its video
  properties are those of the incoming one, and the incoming reference's properties
  are unchanged; for every format and frame, and wherever the new reference keeps its
  properties.
\<close>

theorem identity_window_noop:
  assumes "crop_x crop = 0" and "crop_y crop = 0"
    and "crop_w crop = video_w (st (video picref))"
    and "crop_h crop = video_h (st (video picref))"
  shows "data (fst (start_frame a pix_desc crop st picref)) = data picref \<and>
         linesize (fst (start_frame a pix_desc crop st picref)) = linesize picref \<and>
         snd (start_frame a pix_desc crop st picref)
           (video (fst (start_frame a pix_desc crop st picref))) = st (video picref) \<and>
         snd (start_frame a pix_desc crop st picref) (video picref) = st (video picref)"
proof -
  have "data (fst (start_frame a pix_desc crop st picref)) j = data picref j" for j
    using assms by (simp add: start_frame_data ptr_add_def shr_def)
  then have "data (fst (start_frame a pix_desc crop st picref)) = data picref"
    by (rule ext)
  then show ?thesis
    using assms by (simp add: start_frame_rest start_frame_store)
qed

text \<open>The 320x240 window at (0, 0) on the 320x240 frame.\<close>

theorem identity_window_noop_witness:
  "crop_x (window_420 0 0 320 240) = 0 \<and> crop_y (window_420 0 0 320 240) = 0 \<and>
   crop_w (window_420 0 0 320 240) = video_w (props_320x240 (video frame_420)) \<and>
   crop_h (window_420 0 0 320 240) = video_h (props_320x240 (video frame_420)) \<and>
   data (fst (start_frame 1 yuv420p (window_420 0 0 320 240) props_320x240 frame_420))
     = data frame_420 \<and>
   snd (start_frame 1 yuv420p (window_420 0 0 320 240) props_320x240 frame_420) 1
     = \<lparr>video_w = 320, video_h = 240\<rparr>"
  using identity_window_noop [of "window_420 0 0 320 240" props_320x240 frame_420 1 yuv420p]
  by (simp add: start_frame_rest examples)

subsection \<open>The dimensions of the forwarded reference\<close>

text \<open>
  Lines 131-132 write the window's size through \<^verbatim>\<open>picref\<close>, after \<open>ref2\<close> was made
  from it, and it is \<open>ref2\<close> that is forwarded. The incoming reference always ends with
  the window's size. The forwarded one has it only when it shares the properties
  object with the incoming one; with properties of its own it keeps the size they
  were copied with.
\<close>

lemma start_frame_props_picref:
  "snd (start_frame a pix_desc crop st picref) (video picref)
     = (st (video picref))\<lparr>video_w := crop_w crop, video_h := crop_h crop\<rparr>"
  by (simp add: start_frame_store)

lemma start_frame_props_shared:
  assumes "a = video picref"
  shows "snd (start_frame a pix_desc crop st picref)
           (video (fst (start_frame a pix_desc crop st picref)))
         = (st (video picref))\<lparr>video_w := crop_w crop, video_h := crop_h crop\<rparr>"
  using assms by (simp add: start_frame_rest start_frame_store)

lemma start_frame_props_own:
  assumes "a \<noteq> video picref"
  shows "snd (start_frame a pix_desc crop st picref)
           (video (fst (start_frame a pix_desc crop st picref)))
         = st (video picref)"
  using assms by (simp add: start_frame_rest start_frame_store)

text \<open>
  C9. The claim is that the forwarded reference has the width and height of the
  window. For the 100x80 window on the 320x240 frame, with the new reference's
  properties at an address of their own, the forwarded reference says 320x240 and the
  incoming one 100x80.
\<close>

theorem forwarded_reference_keeps_input_size:
  "video_w (snd (start_frame 1 yuv420p (window_420 4 6 100 80) props_320x240 frame_420)
     (video (fst (start_frame 1 yuv420p (window_420 4 6 100 80) props_320x240 frame_420)))) = 320 \<and>
   video_h (snd (start_frame 1 yuv420p (window_420 4 6 100 80) props_320x240 frame_420)
     (video (fst (start_frame 1 yuv420p (window_420 4 6 100 80) props_320x240 frame_420)))) = 240 \<and>
   video_w (snd (start_frame 1 yuv420p (window_420 4 6 100 80) props_320x240 frame_420)
     (video frame_420)) = 100 \<and>
   video_h (snd (start_frame 1 yuv420p (window_420 4 6 100 80) props_320x240 frame_420)
     (video frame_420)) = 80"
  by (simp add: start_frame_rest start_frame_store examples)

section \<open>draw\_slice\<close>

text \<open>
  With the sums representable the function computes on the integers: it forwards
  nothing outside the window and otherwise the intersection, moved by \<^verbatim>\<open>crop->y\<close>.
\<close>

lemma draw_slice_int:
  assumes cy: "0 \<le> sint (crop_y crop)" and ch: "0 < sint (crop_h crop)"
    and cyh: "representable (sint (crop_y crop) + sint (crop_h crop))"
    and yh: "representable (sint y + sint h)"
    and cyy: "representable (sint (crop_y crop) - sint y)"
    and overlap: "\<not> (sint y + sint h \<le> sint (crop_y crop) \<or>
                     sint (crop_y crop) + sint (crop_h crop) \<le> sint y)"
  shows "\<exists>y' h'. draw_slice crop y h d = Some (y', h', d) \<and>
           sint y' = max (sint y) (sint (crop_y crop)) - sint (crop_y crop) \<and>
           sint h' = min (sint y + sint h) (sint (crop_y crop) + sint (crop_h crop))
                       - max (sint y) (sint (crop_y crop))"
proof -
  have yh': "sint (h + y) = sint y + sint h"
    using sint_add_repr [OF yh] by (simp add: add.commute)
  note [simp] = sint_add_repr [OF cyh] sint_add_repr [OF yh] sint_sub_repr [OF cyy] yh'
  have b: "sint h < 2147483648" "- 2147483648 \<le> sint h" "sint y < 2147483648"
    "- 2147483648 \<le> sint y" "sint (crop_h crop) < 2147483648" "sint (crop_y crop) < 2147483648"
    using sint_bounds by auto
  show ?thesis
  proof (cases "sint y < sint (crop_y crop)")
    case True
    have r1: "representable (sint h - sint (crop_y crop - y))"
      using overlap True yh cy b by (simp add: representable_def)
    have h1: "sint (h - (crop_y crop - y)) = sint y + sint h - sint (crop_y crop)"
      using sint_sub_repr [OF r1] by simp
    have r3: "representable (sint (crop_y crop + crop_h crop) - sint (crop_y crop))"
      using ch b by (simp add: representable_def)
    have r4: "representable (sint (crop_y crop) - sint (crop_y crop))"
      by (simp add: representable_def)
    show ?thesis
      using overlap True
      by (simp add: draw_slice_def h1 sint_sub_repr [OF r3] sint_sub_repr [OF r4] min_def max_def)
  next
    case ge: False
    have r3: "representable (sint (crop_y crop + crop_h crop) - sint y)"
      using overlap ge ch cy b by (simp add: representable_def)
    have r4: "representable (sint y - sint (crop_y crop))"
      using overlap ge ch cy b by (simp add: representable_def)
    show ?thesis
      using overlap ge
      by (simp add: draw_slice_def sint_sub_repr [OF r3] sint_sub_repr [OF r4] min_def max_def)
  qed
qed

lemma draw_slice_no_overlap:
  assumes cyh: "representable (sint (crop_y crop) + sint (crop_h crop))"
    and yh: "representable (sint y + sint h)"
    and "sint y + sint h \<le> sint (crop_y crop) \<or> sint (crop_y crop) + sint (crop_h crop) \<le> sint y"
  shows "draw_slice crop y h d = None"
  using assms(3) by (auto simp: draw_slice_def sint_add_repr [OF cyh] sint_add_repr [OF yh])

text \<open>
  The difference \<^verbatim>\<open>crop->y - y\<close> of line 164 is representable whenever the slice
  reaches into the window: it lies between \<open>- y\<close> and \<open>h\<close>.
\<close>

lemma overlap_diff_representable:
  assumes cy: "0 \<le> sint (crop_y crop)"
    and yh: "representable (sint (y :: cint) + sint (h :: cint))"
    and over: "sint (crop_y crop) < sint y + sint h"
  shows "representable (sint (crop_y crop) - sint y)"
  using assms sint_bounds [of y] sint_bounds [of h] sint_bounds [of "crop_y crop"]
  by (simp add: representable_def)

text \<open>
  A slice inside the frame (rows \<open>y\<close> up to \<open>y + h\<close> of a frame of \<^verbatim>\<open>link->h\<close> rows)
  has a representable end row.
\<close>

lemma frame_slice_representable:
  assumes "0 \<le> sint (y :: cint)" "0 \<le> sint (h :: cint)"
    and "sint y + sint h \<le> sint (link_h link)"
  shows "representable (sint y + sint h)"
  using assms sint_bounds [of "link_h link"] by (simp add: representable_def)

text \<open>
  A slice of non-negative height that is forwarded did not overflow line 160: had
  \<^verbatim>\<open>y + h\<close> wrapped, it would have come out negative and the slice would count as
  lying above the window.
\<close>

lemma forwarded_slice_representable:
  assumes v: "validated link crop" and h: "0 \<le> sint h"
    and fwd: "draw_slice crop y h d = Some r"
  shows "representable (sint y + sint h)"
proof (rule ccontr)
  assume n: "\<not> representable (sint y + sint h)"
  have "- (2 ^ 31) \<le> sint y + sint h"
    using h sint_bounds [of y] by simp
  with n have big: "2 ^ 31 \<le> sint y + sint h"
    by (simp add: representable_def)
  then have "signed_take_bit 31 (sint y + sint h) \<le> sint y + sint h - 2 ^ Suc 31"
    by (intro signed_take_bit_int_less_eq) simp
  then have "sint (y + h) \<le> sint y + sint h - 4294967296"
    by (simp add: sint_word_ariths)
  then have "sint (y + h) < 0"
    using sint_bounds [of y] sint_bounds [of h] by simp
  then have "sint (y + h) \<le> sint (crop_y crop)"
    using validated_int(2) [OF v] by simp
  then have "draw_slice crop y h d = None"
    by (simp add: draw_slice_def)
  with fwd show False by simp
qed

text \<open>
  C3. For a validated window and every incoming slice (the end row \<open>y + h\<close>
  representable, as it is for every slice of a frame): nothing is forwarded when the
  slice lies entirely above (\<open>y + h \<le> crop_y\<close>) or entirely below
  (\<open>crop_y + crop_h \<le> y\<close>) the window, so no empty slice is sent in its place;
  otherwise the forwarded slice is the intersection of \<open>[y, y + h)\<close> with
  \<open>[crop_y, crop_y + crop_h)\<close>, its start counted from \<open>crop_y\<close>, with the direction
  unchanged, and it is not empty when the incoming slice is not.
\<close>

theorem draw_slice_clips:
  assumes v: "validated link crop" and s: "representable (sint y + sint h)"
  shows "(sint y + sint h \<le> sint (crop_y crop) \<or> sint (crop_y crop) + sint (crop_h crop) \<le> sint y
            \<longrightarrow> draw_slice crop y h d = None) \<and>
         (\<not> (sint y + sint h \<le> sint (crop_y crop) \<or> sint (crop_y crop) + sint (crop_h crop) \<le> sint y)
            \<longrightarrow> (\<exists>y' h'. draw_slice crop y h d = Some (y', h', d) \<and>
                   sint y' = max (sint y) (sint (crop_y crop)) - sint (crop_y crop) \<and>
                   sint h' = min (sint y + sint h) (sint (crop_y crop) + sint (crop_h crop))
                               - max (sint y) (sint (crop_y crop)) \<and>
                   (0 < sint h \<longrightarrow> 0 < sint h')))"
proof (intro conjI impI)
  assume "sint y + sint h \<le> sint (crop_y crop) \<or> sint (crop_y crop) + sint (crop_h crop) \<le> sint y"
  then show "draw_slice crop y h d = None"
    by (intro draw_slice_no_overlap validated_window_sum [OF v] s)
next
  assume o: "\<not> (sint y + sint h \<le> sint (crop_y crop) \<or> sint (crop_y crop) + sint (crop_h crop) \<le> sint y)"
  then have d: "representable (sint (crop_y crop) - sint y)"
    using overlap_diff_representable [OF validated_int(2) [OF v] s] by simp
  from draw_slice_int [OF validated_int(2) [OF v] validated_int(4) [OF v]
      validated_window_sum [OF v] s d o, of d]
  obtain y' h' where r: "draw_slice crop y h d = Some (y', h', d)"
    "sint y' = max (sint y) (sint (crop_y crop)) - sint (crop_y crop)"
    "sint h' = min (sint y + sint h) (sint (crop_y crop) + sint (crop_h crop))
                 - max (sint y) (sint (crop_y crop))"
    by blast
  have "0 < sint h'" if "0 < sint h"
    using that o validated_int(4) [OF v] by (simp add: r(3) min_def max_def)
  with r show "\<exists>y' h'. draw_slice crop y h d = Some (y', h', d) \<and>
                   sint y' = max (sint y) (sint (crop_y crop)) - sint (crop_y crop) \<and>
                   sint h' = min (sint y + sint h) (sint (crop_y crop) + sint (crop_h crop))
                               - max (sint y) (sint (crop_y crop)) \<and>
                   (0 < sint h \<longrightarrow> 0 < sint h')"
    by blast
qed

text \<open>
  The spec's example, the window \<open>y = 10\<close>, \<open>h = 50\<close>: the slice (0, 15) goes out as
  (0, 5), the slice (60, 5) is not forwarded, the slice (5, 60) goes out as (0, 50).
\<close>

theorem draw_slice_clips_witness:
  "validated link_320x240 (window_420 0 10 100 50) \<and>
   representable (sint (0 :: cint) + sint (15 :: cint)) \<and>
   representable (sint (60 :: cint) + sint (5 :: cint)) \<and>
   representable (sint (5 :: cint) + sint (60 :: cint)) \<and>
   draw_slice (window_420 0 10 100 50) 0 15 1 = Some (0, 5, 1) \<and>
   draw_slice (window_420 0 10 100 50) 60 5 1 = None \<and>
   draw_slice (window_420 0 10 100 50) 5 60 1 = Some (0, 50, 1)"
proof -
  have v: "validated link_320x240 (window_420 0 10 100 50)"
    by (simp add: validated_def out_of_input_area_def examples)
  have s: "representable (sint (0 :: cint) + sint (15 :: cint))"
    "representable (sint (60 :: cint) + sint (5 :: cint))"
    "representable (sint (5 :: cint) + sint (60 :: cint))"
    by (simp_all add: representable_def)
  have n: "draw_slice (window_420 0 10 100 50) 60 5 1 = None"
    using draw_slice_clips [OF v s(2), of 1] by (simp add: examples)
  from draw_slice_clips [OF v s(1), of 1]
  obtain y' h' where a: "draw_slice (window_420 0 10 100 50) 0 15 1 = Some (y', h', 1)"
    "sint y' = 0" "sint h' = 5"
    by (auto simp: examples)
  from draw_slice_clips [OF v s(3), of 1]
  obtain y'' h'' where b: "draw_slice (window_420 0 10 100 50) 5 60 1 = Some (y'', h'', 1)"
    "sint y'' = 0" "sint h'' = 50"
    by (auto simp: examples)
  have "y' = 0" "h' = 5" "y'' = 0" "h'' = 50"
    using a(2,3) b(2,3) by (auto intro: signed_word_eqI)
  with v s n a(1) b(1) show ?thesis by simp
qed

text \<open>
  C4. For a validated window and every incoming slice (a height that is not negative),
  a forwarded slice has \<open>0 \<le> h' \<le> crop_h\<close> and \<open>0 \<le> y' \<le> crop_h - h'\<close>: the height
  is never negative and the slice lies inside the output frame.
\<close>

theorem draw_slice_in_range:
  assumes v: "validated link crop" and h: "0 \<le> sint h"
    and fwd: "draw_slice crop y h d = Some (y', h', d')"
  shows "0 \<le> sint h' \<and> sint h' \<le> sint (crop_h crop) \<and>
         0 \<le> sint y' \<and> sint y' \<le> sint (crop_h crop) - sint h'"
proof -
  have s: "representable (sint y + sint h)"
    using forwarded_slice_representable [OF v h fwd] .
  have o: "\<not> (sint y + sint h \<le> sint (crop_y crop) \<or> sint (crop_y crop) + sint (crop_h crop) \<le> sint y)"
    using draw_slice_no_overlap [OF validated_window_sum [OF v] s, of d] fwd by auto
  then have df: "representable (sint (crop_y crop) - sint y)"
    using overlap_diff_representable [OF validated_int(2) [OF v] s] by simp
  from draw_slice_int [OF validated_int(2) [OF v] validated_int(4) [OF v]
      validated_window_sum [OF v] s df o, of d] fwd
  have "sint y' = max (sint y) (sint (crop_y crop)) - sint (crop_y crop)"
    "sint h' = min (sint y + sint h) (sint (crop_y crop) + sint (crop_h crop))
                 - max (sint y) (sint (crop_y crop))"
    by auto
  then show ?thesis
    using o h validated_int(4) [OF v] by (simp add: min_def max_def)
qed

text \<open>The slice (5, 60) on the window \<open>y = 10\<close>, \<open>h = 50\<close> goes out as (0, 50).\<close>

theorem draw_slice_in_range_witness:
  "validated link_320x240 (window_420 0 10 100 50) \<and>
   0 \<le> sint (60 :: cint) \<and>
   draw_slice (window_420 0 10 100 50) 5 60 1 = Some (0, 50, 1) \<and>
   0 \<le> sint (50 :: cint) \<and> sint (50 :: cint) \<le> sint (crop_h (window_420 0 10 100 50)) \<and>
   0 \<le> sint (0 :: cint) \<and>
   sint (0 :: cint) \<le> sint (crop_h (window_420 0 10 100 50)) - sint (50 :: cint)"
proof -
  have v: "validated link_320x240 (window_420 0 10 100 50)"
    by (simp add: validated_def out_of_input_area_def examples)
  have h: "0 \<le> sint (60 :: cint)" by simp
  have f: "draw_slice (window_420 0 10 100 50) 5 60 1 = Some (0, 50, 1)"
    by (simp add: draw_slice_def examples)
  from draw_slice_in_range [OF v h f] v h f show ?thesis by simp
qed

end
